theory Spec2Isabelle
  imports Complex_Main "HOL-Library.Multiset"
begin

chapter \<open>Resume ranking and question answering\<close>

text \<open>
  A shallow embedding of \<^verbatim>\<open>backend/processors/scorer.py\<close> (class \<^verbatim>\<open>ResumeScorer\<close>) and of
  \<^verbatim>\<open>backend/main.py\<close> (class \<^verbatim>\<open>ChatStore\<close>, the endpoints \<^verbatim>\<open>sort_resumes\<close> and
  \<^verbatim>\<open>candidate_ask\<close>).

  Conventions of the model:
  \<^item> a Python \<^verbatim>\<open>str\<close> is a \<^typ>\<open>string\<close>, a list of characters with code points below
    256. Whitespace is Python's on that range. Letters and digits are the ASCII ones: case
    conversion and the classes \<^verbatim>\<open>isalpha\<close>, \<^verbatim>\<open>isdigit\<close>, \<^verbatim>\<open>\w\<close>, \<^verbatim>\<open>\d\<close> of characters beyond
    ASCII are not modelled;
  \<^item> a Python \<^verbatim>\<open>float\<close> is a \<^typ>\<open>real\<close>: rounding errors of the floating-point operations are
    not modelled;
  \<^item> the embedding model, the PDF and entity extraction and the sources of time and of
    random identifiers are parameters of the functions that use them.
\<close>

section \<open>Definitions\<close>

subsection \<open>Strings\<close>

text \<open>
  \<^verbatim>\<open>str.strip()\<close> removes leading and trailing whitespace: the characters \<^verbatim>\<open>\t \n \v \f \r\<close>,
  the separators \<^verbatim>\<open>0x1C\<close> to \<^verbatim>\<open>0x1F\<close>, the space, the next-line character \<^verbatim>\<open>0x85\<close> and the
  no-break space \<^verbatim>\<open>0xA0\<close>.
\<close>

definition is_space :: "char \<Rightarrow> bool" where
  "is_space c = (c \<in> set [CHR 0x09, CHR 0x0A, CHR 0x0B, CHR 0x0C, CHR 0x0D,
                           CHR 0x1C, CHR 0x1D, CHR 0x1E, CHR 0x1F, CHR '' '',
                           CHR 0x85, CHR 0xA0])"

definition strip :: "string \<Rightarrow> string" where
  "strip s = rev (dropWhile is_space (rev (dropWhile is_space s)))"

text \<open>
  \<^verbatim>\<open>text.split(c)\<close> for a one-character separator: the pieces between the occurrences of
  \<^verbatim>\<open>c\<close>, always at least one piece. (The first branch of the \<open>case\<close> is never taken: the
  result of \<open>split_on\<close> is never empty.)
\<close>

fun split_on :: "char \<Rightarrow> string \<Rightarrow> string list" where
  "split_on c [] = [[]]"
| "split_on c (x # xs) =
     (if x = c then [] # split_on c xs
      else (case split_on c xs of [] \<Rightarrow> [[x]] | h # t \<Rightarrow> (x # h) # t))"

text \<open>\<^verbatim>\<open>sep.join(xs)\<close>.\<close>

fun join :: "string \<Rightarrow> string list \<Rightarrow> string" where
  "join sep [] = []"
| "join sep [x] = x"
| "join sep (x # y # ys) = x @ sep @ join sep (y # ys)"

text \<open>
  Case conversion and character classes, on the ASCII letters and digits:
  \<^verbatim>\<open>str.lower()\<close>, \<^verbatim>\<open>str.isalpha()\<close>, \<^verbatim>\<open>str.isdigit()\<close>, \<^verbatim>\<open>str.isupper()\<close> of a character.
\<close>

definition upper_letters :: string where
  "upper_letters = ''ABCDEFGHIJKLMNOPQRSTUVWXYZ''"

definition lower_letters :: string where
  "lower_letters = ''abcdefghijklmnopqrstuvwxyz''"

definition digits :: string where
  "digits = ''0123456789''"

fun translate :: "string \<Rightarrow> string \<Rightarrow> char \<Rightarrow> char" where
  "translate (a # as) (b # bs) c = (if c = a then b else translate as bs c)"
| "translate _ _ c = c"

definition lower_char :: "char \<Rightarrow> char" where
  "lower_char c = translate upper_letters lower_letters c"

definition upper_char :: "char \<Rightarrow> char" where
  "upper_char c = translate lower_letters upper_letters c"

definition lower :: "string \<Rightarrow> string" where
  "lower s = map lower_char s"

definition is_upper :: "char \<Rightarrow> bool" where
  "is_upper c = (c \<in> set upper_letters)"

definition is_alpha :: "char \<Rightarrow> bool" where
  "is_alpha c = (c \<in> set upper_letters \<or> c \<in> set lower_letters)"

definition is_digit :: "char \<Rightarrow> bool" where
  "is_digit c = (c \<in> set digits)"

text \<open>
  \<^verbatim>\<open>str.title()\<close>: a letter is upper-cased when the character before it is not a letter,
  and lower-cased otherwise; \<open>prev\<close> tells whether the previous character was a letter.
\<close>

fun title_loop :: "bool \<Rightarrow> string \<Rightarrow> string" where
  "title_loop prev [] = []"
| "title_loop prev (c # cs) =
     (if is_alpha c
      then (if prev then lower_char c else upper_char c) # title_loop True cs
      else c # title_loop False cs)"

definition title :: "string \<Rightarrow> string" where
  "title s = title_loop False s"

text \<open>The substring test \<^verbatim>\<open>sub in s\<close>.\<close>

fun starts_with :: "string \<Rightarrow> string \<Rightarrow> bool" where
  "starts_with [] s = True"
| "starts_with (p # ps) [] = False"
| "starts_with (p # ps) (x # xs) = (if p = x then starts_with ps xs else False)"

fun contains :: "string \<Rightarrow> string \<Rightarrow> bool" where
  "contains sub [] = (sub = [])"
| "contains sub (x # xs) = (if starts_with sub (x # xs) then True else contains sub xs)"

text \<open>
  \<^verbatim>\<open>str.splitlines()\<close>: the lines of a string, without the line breaks; a line break is
  \<^verbatim>\<open>\r\n\<close> or one of \<^verbatim>\<open>\n \r \v \f 0x1C 0x1D 0x1E 0x85\<close>; \<open>cur\<close> is the line read so far.
\<close>

definition is_linebreak :: "char \<Rightarrow> bool" where
  "is_linebreak c =
     (c \<in> set [CHR 0x0A, CHR 0x0D, CHR 0x0B, CHR 0x0C, CHR 0x1C, CHR 0x1D, CHR 0x1E, CHR 0x85])"

fun splitlines_loop :: "string \<Rightarrow> string \<Rightarrow> string list" where
  "splitlines_loop cur [] = (if cur = [] then [] else [cur])"
| "splitlines_loop cur [x] = (if is_linebreak x then [cur] else [cur @ [x]])"
| "splitlines_loop cur (x # y # xs) =
     (if x = CHR 0x0D \<and> y = CHR 0x0A then cur # splitlines_loop [] xs
      else if is_linebreak x then cur # splitlines_loop [] (y # xs)
      else splitlines_loop (cur @ [x]) (y # xs))"

definition splitlines :: "string \<Rightarrow> string list" where
  "splitlines s = splitlines_loop [] s"

text \<open>\<^verbatim>\<open>str(n)\<close> for a natural number, as in the f-strings of the feedback.\<close>

fun str_nat :: "nat \<Rightarrow> string" where
  "str_nat n = (if n < 10 then [digits ! n] else str_nat (n div 10) @ [digits ! (n mod 10)])"

text \<open>The Python slice \<^verbatim>\<open>xs[i:]\<close>, for a negative or non-negative start \<^verbatim>\<open>i\<close>.\<close>

definition slice_from :: "int \<Rightarrow> 'a list \<Rightarrow> 'a list" where
  "slice_from i xs =
     (let n = int (length xs);
          start = (if i < 0 then max 0 (n + i) else min i n)
      in drop (nat start) xs)"

text \<open>\<^verbatim>\<open>int(x)\<close> of a float: truncation towards zero.\<close>

definition py_int :: "real \<Rightarrow> int" where
  "py_int x = (if x \<ge> 0 then \<lfloor>x\<rfloor> else \<lceil>x\<rceil>)"

text \<open>
  The loop \<^verbatim>\<open>for k in xs: if k not in seen: unique.append(k); seen.add(k)\<close>: the first
  occurrence of every element, in order.
\<close>

fun unique :: "'a list \<Rightarrow> 'a list \<Rightarrow> 'a list" where
  "unique seen [] = []"
| "unique seen (k # ks) = (if k \<in> set seen then unique seen ks else k # unique (k # seen) ks)"

subsection \<open>The chunker: \<^verbatim>\<open>ResumeScorer._create_chunks\<close>\<close>

text \<open>
  \<^verbatim>\<open>'. '.join(current_chunk) + '.'\<close>, the string appended to \<^verbatim>\<open>chunks\<close> when a chunk is closed.
\<close>

definition close_chunk :: "string list \<Rightarrow> string" where
  "close_chunk current_chunk = join ''. '' current_chunk @ ''.''"

text \<open>
  The \<^verbatim>\<open>for sentence in sentences\<close> loop with its three variables \<^verbatim>\<open>chunks\<close>,
  \<^verbatim>\<open>current_chunk\<close> and \<^verbatim>\<open>current_length\<close>; the equation for the empty list is the code after
  the loop (\<^verbatim>\<open>if current_chunk: chunks.append(...)\<close>).
\<close>

fun create_chunks_loop ::
  "int \<Rightarrow> string list \<Rightarrow> string list \<Rightarrow> string list \<Rightarrow> nat \<Rightarrow> string list" where
  "create_chunks_loop chunk_size [] chunks current_chunk current_length =
     (if current_chunk \<noteq> [] then chunks @ [close_chunk current_chunk] else chunks)"
| "create_chunks_loop chunk_size (s # sentences) chunks current_chunk current_length =
     (let sentence = strip s in
      if sentence = [] then
        create_chunks_loop chunk_size sentences chunks current_chunk current_length
      else
        let sentence_len = length sentence in
        if int (current_length + sentence_len) > chunk_size \<and> current_chunk \<noteq> [] then
          create_chunks_loop chunk_size sentences
            (chunks @ [close_chunk current_chunk]) [sentence] sentence_len
        else
          create_chunks_loop chunk_size sentences chunks
            (current_chunk @ [sentence]) (current_length + sentence_len))"

text \<open>\<^verbatim>\<open>return chunks if chunks else [text]\<close>.\<close>

definition create_chunks :: "string \<Rightarrow> int \<Rightarrow> string list" where
  "create_chunks text chunk_size =
     (let chunks = create_chunks_loop chunk_size (split_on (CHR ''.'') text) [] [] 0
      in if chunks \<noteq> [] then chunks else [text])"

text \<open>
  For the statements about the content of chunks: the sentences of a text are the pieces
  between periods, stripped, the empty ones left out (what the loop above iterates over
  and keeps).
\<close>

definition sentences_of :: "string \<Rightarrow> string list" where
  "sentences_of text = filter (\<lambda>s. s \<noteq> []) (map strip (split_on (CHR ''.'') text))"

text \<open>
  The same loop, keeping each chunk as the list of its sentences instead of the joined
  string (used in proofs only; \<open>chunk_loop_groups\<close> relates the two).
\<close>

fun chunk_groups_loop ::
  "int \<Rightarrow> string list \<Rightarrow> string list list \<Rightarrow> string list \<Rightarrow> string list list" where
  "chunk_groups_loop chunk_size [] groups cur = (if cur \<noteq> [] then groups @ [cur] else groups)"
| "chunk_groups_loop chunk_size (s # ss) groups cur =
     (let sentence = strip s in
      if sentence = [] then chunk_groups_loop chunk_size ss groups cur
      else if int (sum_list (map length cur) + length sentence) > chunk_size \<and> cur \<noteq> []
        then chunk_groups_loop chunk_size ss (groups @ [cur]) [sentence]
        else chunk_groups_loop chunk_size ss groups (cur @ [sentence]))"


definition sentence_ok :: "string \<Rightarrow> bool" where
  "sentence_ok s = (s \<noteq> [] \<and> strip s = s \<and> CHR ''.'' \<notin> set s)"

definition group_ok :: "int \<Rightarrow> string list \<Rightarrow> bool" where
  "group_ok chunk_size g =
     (g \<noteq> [] \<and> list_all sentence_ok g \<and>
      (2 \<le> length g \<longrightarrow> int (sum_list (map length g)) \<le> chunk_size))"

subsection \<open>Keywords and skills: \<^verbatim>\<open>_extract_keywords\<close>, \<^verbatim>\<open>_extract_matching_skills\<close>\<close>

definition keywords_db :: "string list" where
  "keywords_db =
     [''python'', ''javascript'', ''java'', ''react'', ''node'', ''sql'', ''cloud'',
      ''api'', ''database'', ''frontend'', ''backend'', ''fullstack'', ''mobile'',
      ''devops'', ''agile'', ''testing'', ''performance'', ''security'', ''scalability'']"

text \<open>The dictionary \<^verbatim>\<open>aliases\<close>, read with \<^verbatim>\<open>aliases.get(keyword, [])\<close>.\<close>

definition aliases :: "string \<Rightarrow> string list" where
  "aliases keyword =
     (if keyword = ''node'' then [''node.js'', ''nodejs'', ''express'']
      else if keyword = ''react'' then [''react.js'', ''reactjs'', ''nextjs'', ''next.js'']
      else if keyword = ''sql'' then [''postgresql'', ''mysql'', ''psql'', ''mssql'', ''sqlite'']
      else if keyword = ''cloud'' then [''aws'', ''amazon web services'', ''gcp'', ''google cloud'', ''azure'']
      else if keyword = ''devops'' then [''ci/cd'', ''cicd'', ''pipeline'', ''docker'', ''kubernetes'']
      else if keyword = ''testing'' then [''jest'', ''pytest'', ''unit testing'', ''e2e'', ''cypress'']
      else if keyword = ''api'' then [''rest'', ''graphql'', ''restful'']
      else [])"

text \<open>
  One round of the loop over \<^verbatim>\<open>keywords_db\<close>: the keyword is appended when it occurs in
  the lower-cased text or, failing that, when one of its aliases does.
\<close>

definition keyword_found :: "string \<Rightarrow> string \<Rightarrow> bool" where
  "keyword_found text_lower keyword =
     (if contains keyword text_lower then True
      else list_ex (\<lambda>alt. contains alt text_lower) (aliases keyword))"

definition extract_keywords :: "string \<Rightarrow> string list" where
  "extract_keywords text =
     (let text_lower = lower text;
          found_keywords = filter (keyword_found text_lower) keywords_db
      in unique [] found_keywords)"

definition skills_db :: "string list" where
  "skills_db =
     [''python'', ''javascript'', ''typescript'', ''java'', ''c++'', ''c#'', ''php'', ''ruby'', ''go'', ''rust'',
      ''sql'', ''postgresql'', ''mysql'', ''mongodb'', ''redis'', ''elasticsearch'',
      ''react'', ''vue'', ''angular'', ''nextjs'', ''node.js'', ''express'', ''django'', ''flask'',
      ''aws'', ''azure'', ''gcp'', ''docker'', ''kubernetes'', ''jenkins'', ''git'',
      ''rest'', ''graphql'', ''api'', ''microservices'',
      ''machine learning'', ''deep learning'', ''tensorflow'', ''pytorch'']"

definition extract_matching_skills :: "string \<Rightarrow> string \<Rightarrow> string list" where
  "extract_matching_skills resume_text job_description =
     (let resume_lower = lower resume_text;
          job_lower = lower job_description;
          matching_skills =
            map title (filter (\<lambda>skill. contains skill resume_lower \<and> contains skill job_lower) skills_db)
      in take 10 matching_skills)"

subsection \<open>Feedback and improvements: \<^verbatim>\<open>_generate_feedback\<close>, \<^verbatim>\<open>_generate_improvements\<close>\<close>

text \<open>
  The entities of a resume are a dictionary from a label (\<^verbatim>\<open>"ORG"\<close>, \<^verbatim>\<open>"DATE"\<close>, ...) to
  a list of strings, read with \<^verbatim>\<open>entities.get(label, [])\<close>.
\<close>

type_synonym entities = "string \<rightharpoonup> string list"

definition entities_get :: "entities \<Rightarrow> string \<Rightarrow> string list" where
  "entities_get ents label = (case ents label of None \<Rightarrow> [] | Some xs \<Rightarrow> xs)"

definition generate_feedback :: "real \<Rightarrow> real \<Rightarrow> string list \<Rightarrow> entities \<Rightarrow> string" where
  "generate_feedback semantic_score skill_match_ratio skills ents =
     (let part1 =
            (if semantic_score > 0.75 then ''Strong semantic match with job requirements.''
             else if semantic_score > 0.5 then ''Good match with job requirements.''
             else if semantic_score > 0.3 then ''Moderate match with job requirements.''
             else ''Limited semantic match with job requirements.'');
          part2 =
            (if skill_match_ratio > 0.7 then
               ''Excellent skill alignment with '' @ str_nat (length skills) @ '' relevant skills identified.''
             else if skill_match_ratio > 0.4 then
               ''Good skill overlap with '' @ str_nat (length skills) @ '' relevant skills.''
             else if skill_match_ratio > 0.1 then
               ''Some skill overlap with '' @ str_nat (length skills) @ '' relevant skills.''
             else ''Limited skill overlap with job requirements.'');
          organizations = entities_get ents ''ORG'';
          part3 =
            (if organizations \<noteq> [] then
               [''Candidate has experience at '' @ str_nat (length organizations) @ '' organizations.'']
             else []);
          education = entities_get ents ''DATE'';
          part4 = (if education \<noteq> [] then [''Strong educational background indicated.''] else [])
      in join '' '' ([part1, part2] @ part3 @ part4))"

definition generate_improvements :: "string list \<Rightarrow> string list \<Rightarrow> string list \<Rightarrow> string list" where
  "generate_improvements job_keywords resume_keywords matched_skills =
     (let gaps = filter (\<lambda>kw. kw \<notin> set resume_keywords) job_keywords;
          improvements1 =
            map (\<lambda>g. ''Strengthen experience with '' @ g @ '': build a small project or certification.'')
                (take 5 gaps);
          improvements2 =
            (if int (length matched_skills) < max 3 (int (length job_keywords) div 2) then
               improvements1 @ [''Highlight concrete achievements using metrics to improve semantic relevance.'']
             else improvements1)
      in if improvements2 = [] then
           [''Great alignment. Emphasize recent work matching the job requirements.'']
         else improvements2)"

subsection \<open>Scoring one resume: the body of the loop of \<^verbatim>\<open>score_resumes\<close>\<close>

text \<open>
  An exception raised by code outside the repository (the embedding model, the PDF reader,
  the entity recogniser), with its message.
\<close>

datatype exn = Exception string

text \<open>
  The processed resume (the dictionary built by \<^verbatim>\<open>sort_resumes\<close>) and the scored resume
  (the dictionary appended to \<^verbatim>\<open>scored_resumes\<close>). \<^verbatim>\<open>skill_evidence\<close> is a dictionary from
  keyword to snippet.
\<close>

record resume_data =
  rd_name :: string
  rd_filename :: string
  rd_raw_text :: string
  rd_entities :: entities
  rd_summary :: string
  rd_skills :: "string list"
  rd_education :: "string list"

record scored =
  name :: string
  filename :: string
  score :: real
  semantic_score :: real
  skill_match_ratio :: real
  match_percentage :: int
  summary :: string
  skills :: "string list"
  experience :: "string list"
  education :: "string list"
  feedback :: string
  evidence :: "string list"
  improvements :: "string list"
  jd_skills :: "string list"
  missing_skills :: "string list"
  skill_evidence :: "string \<rightharpoonup> string"
  experience_signal :: real
  raw_text :: string

text \<open>
  The loop \<^verbatim>\<open>for chunk in chunks\<close> that embeds every chunk and collects its cosine
  similarity to the job description. \<open>encode\<close> is \<^verbatim>\<open>self.model.encode\<close>, which may raise;
  \<open>cos_sim\<close> is \<^verbatim>\<open>util.pytorch_cos_sim(a, b)[0][0].item()\<close>.
\<close>

fun chunk_scores_loop ::
  "(string \<Rightarrow> exn + 'v) \<Rightarrow> ('v \<Rightarrow> 'v \<Rightarrow> real) \<Rightarrow> 'v \<Rightarrow> string list \<Rightarrow> exn + real list" where
  "chunk_scores_loop encode cos_sim job_embedding [] = Inr []"
| "chunk_scores_loop encode cos_sim job_embedding (chunk # chunks) =
     (case encode chunk of
        Inl e \<Rightarrow> Inl e
      | Inr chunk_embedding \<Rightarrow>
          (case chunk_scores_loop encode cos_sim job_embedding chunks of
             Inl e \<Rightarrow> Inl e
           | Inr rest \<Rightarrow> Inr (cos_sim job_embedding chunk_embedding # rest)))"

text \<open>\<^verbatim>\<open>float(np.mean(chunk_scores)) if chunk_scores else 0.0\<close>.\<close>

definition mean_score :: "real list \<Rightarrow> real" where
  "mean_score chunk_scores =
     (if chunk_scores \<noteq> [] then sum_list chunk_scores / real (length chunk_scores) else 0)"

text \<open>
  \<^verbatim>\<open>np.argsort(xs)\<close>: the indices of \<open>xs\<close> in ascending order of the values. Equal values
  are taken to keep the order of their indices (the insertion sort that NumPy applies to
  short arrays does; NumPy promises no order among equal values in general).
\<close>

definition argsort :: "real list \<Rightarrow> nat list" where
  "argsort xs = map snd (sort_key fst (zip xs [0..<length xs]))"

text \<open>\<^verbatim>\<open>np.argsort(chunk_scores)[-5:][::-1]\<close>.\<close>

definition top_idx :: "real list \<Rightarrow> nat list" where
  "top_idx chunk_scores = rev (slice_from (- 5) (argsort chunk_scores))"


definition contact_tokens :: "string list" where
  "contact_tokens = [''email'', ''phone'', ''linkedin'', ''github'', ''http'', ''@'']"

text \<open>\<^verbatim>\<open>chunks[int(idx)][:240].strip()\<close>.\<close>

definition raw_snippet :: "string list \<Rightarrow> nat \<Rightarrow> string" where
  "raw_snippet chunks idx = strip (take 240 (chunks ! idx))"

text \<open>The test that skips a snippet with contact or header noise.\<close>

definition contact_noise :: "string \<Rightarrow> bool" where
  "contact_noise snippet = list_ex (\<lambda>tok. contains tok (lower snippet)) contact_tokens"

text \<open>The evidence entry of a snippet: the snippet, followed by the job keywords it matches.\<close>

definition annotate :: "string list \<Rightarrow> string \<Rightarrow> string" where
  "annotate job_keywords snippet =
     (let matched = filter (\<lambda>k. k \<in> set job_keywords) (extract_keywords snippet)
      in if matched \<noteq> [] then snippet @ ''  | matched: '' @ join '', '' matched else snippet)"

text \<open>
  The loop \<^verbatim>\<open>for idx in top_idx\<close> with its \<^verbatim>\<open>continue\<close> and its \<^verbatim>\<open>break\<close> once three
  entries are collected.
\<close>

fun evidence_loop :: "string list \<Rightarrow> string list \<Rightarrow> nat list \<Rightarrow> string list \<Rightarrow> string list" where
  "evidence_loop job_keywords chunks [] collected = collected"
| "evidence_loop job_keywords chunks (idx # rest) collected =
     (if contact_noise (raw_snippet chunks idx) then
        evidence_loop job_keywords chunks rest collected
      else if length (collected @ [annotate job_keywords (raw_snippet chunks idx)]) \<ge> 3 then
        collected @ [annotate job_keywords (raw_snippet chunks idx)]
      else
        evidence_loop job_keywords chunks rest
          (collected @ [annotate job_keywords (raw_snippet chunks idx)]))"

definition select_evidence :: "string \<Rightarrow> string list \<Rightarrow> real list \<Rightarrow> string list" where
  "select_evidence job_description chunks chunk_scores =
     (if chunk_scores \<noteq> [] then
        evidence_loop (extract_keywords job_description) chunks (top_idx chunk_scores) []
      else [])"

text \<open>
  \<^verbatim>\<open>len(set(job_keywords) & set(resume_keywords)) / len(job_keywords) if job_keywords else 0.0\<close>.
\<close>

definition skill_match_ratio_of :: "string list \<Rightarrow> string list \<Rightarrow> real" where
  "skill_match_ratio_of job_keywords resume_keywords =
     (if job_keywords \<noteq> [] then
        real (length (remdups (filter (\<lambda>k. k \<in> set resume_keywords) job_keywords)))
          / real (length job_keywords)
      else 0)"

text \<open>
  The snippet stored in \<^verbatim>\<open>skill_evidence\<close> for a keyword: the first line of the text that
  contains it or, when there is none (or that line is blank), the first chunk that
  contains it, cut to 200 characters; \<^verbatim>\<open>"found"\<close> otherwise.
\<close>

definition skill_snippet :: "string \<Rightarrow> string list \<Rightarrow> string \<Rightarrow> string" where
  "skill_snippet raw chunks k =
     (let snippet1 = (case find (\<lambda>line. contains k (lower line)) (splitlines raw) of
                        None \<Rightarrow> [] | Some line \<Rightarrow> take 200 (strip line));
          snippet2 = (if snippet1 = [] \<and> chunks \<noteq> [] then
                        (case find (\<lambda>ch. contains k (lower ch)) chunks of
                           None \<Rightarrow> [] | Some ch \<Rightarrow> take 200 (strip ch))
                      else snippet1)
      in if snippet2 \<noteq> [] then snippet2 else ''found'')"

text \<open>
  \<^verbatim>\<open>combined_score = (0.85 * semantic_score) + (0.15 * skill_match_ratio)\<close> and
  \<^verbatim>\<open>match_percentage = int(min(100, max(0, combined_score * 100)))\<close>.
\<close>

definition combined_score_of :: "real \<Rightarrow> real \<Rightarrow> real" where
  "combined_score_of semantic skill_ratio = (0.85 * semantic) + (0.15 * skill_ratio)"

definition match_percentage_of :: "real \<Rightarrow> int" where
  "match_percentage_of combined_score = py_int (min 100 (max 0 (combined_score * 100)))"


text \<open>
  The body of \<^verbatim>\<open>for resume_data in processed_resumes\<close>: the scored resume, or the
  exception of the embedding model.
\<close>

definition score_resume ::
  "(string \<Rightarrow> exn + 'v) \<Rightarrow> ('v \<Rightarrow> 'v \<Rightarrow> real) \<Rightarrow> 'v \<Rightarrow> string \<Rightarrow> resume_data \<Rightarrow> exn + scored" where
  "score_resume encode cos_sim job_embedding job_description rd =
     (let raw = rd_raw_text rd;
          chunks = create_chunks raw 500
      in case chunk_scores_loop encode cos_sim job_embedding chunks of
           Inl e \<Rightarrow> Inl e
         | Inr chunk_scores \<Rightarrow>
            (let semantic = mean_score chunk_scores;
                 evid = select_evidence job_description chunks chunk_scores;
                 skls = (if rd_skills rd \<noteq> [] then rd_skills rd
                         else extract_matching_skills raw job_description);
                 job_keywords = extract_keywords job_description;
                 resume_keywords = extract_keywords raw;
                 ratio = skill_match_ratio_of job_keywords resume_keywords;
                 combined = combined_score_of semantic ratio
             in Inr \<lparr>name = rd_name rd,
                     filename = rd_filename rd,
                     score = combined,
                     semantic_score = semantic,
                     skill_match_ratio = ratio,
                     match_percentage = match_percentage_of combined,
                     summary = rd_summary rd,
                     skills = skls,
                     experience = take 5 (entities_get (rd_entities rd) ''ORG''),
                     education = take 3 (if rd_education rd \<noteq> [] then rd_education rd
                                         else entities_get (rd_entities rd) ''EDUCATION''),
                     feedback = generate_feedback semantic ratio skls (rd_entities rd),
                     evidence = evid,
                     improvements = generate_improvements job_keywords resume_keywords skls,
                     jd_skills = job_keywords,
                     missing_skills = filter (\<lambda>k. k \<notin> set resume_keywords) job_keywords,
                     skill_evidence =
                       (\<lambda>k. if k \<in> set job_keywords \<and> k \<in> set resume_keywords
                            then Some (skill_snippet raw chunks k) else None),
                     experience_signal = min 1 (real (length (entities_get (rd_entities rd) ''ORG'')) / 8),
                     raw_text = raw\<rparr>))"

subsection \<open>Ranking: \<^verbatim>\<open>score_resumes\<close>\<close>

fun score_all ::
  "(string \<Rightarrow> exn + 'v) \<Rightarrow> ('v \<Rightarrow> 'v \<Rightarrow> real) \<Rightarrow> 'v \<Rightarrow> string \<Rightarrow> resume_data list \<Rightarrow> exn + scored list" where
  "score_all encode cos_sim job_embedding job_description [] = Inr []"
| "score_all encode cos_sim job_embedding job_description (rd # rds) =
     (case score_resume encode cos_sim job_embedding job_description rd of
        Inl e \<Rightarrow> Inl e
      | Inr s \<Rightarrow>
          (case score_all encode cos_sim job_embedding job_description rds of
             Inl e \<Rightarrow> Inl e
           | Inr rest \<Rightarrow> Inr (s # rest)))"

text \<open>
  \<^verbatim>\<open>xs.sort(key=..., reverse=True)\<close> for an integer key: Python's sort is stable, also in
  reverse, so it is the stable sort on the negated key.
\<close>

definition sort_reverse :: "('a \<Rightarrow> int) \<Rightarrow> 'a list \<Rightarrow> 'a list" where
  "sort_reverse key xs = sort_key (\<lambda>x. - key x) xs"

definition score_resumes ::
  "(string \<Rightarrow> exn + 'v) \<Rightarrow> ('v \<Rightarrow> 'v \<Rightarrow> real) \<Rightarrow> string \<Rightarrow> resume_data list \<Rightarrow> exn + scored list" where
  "score_resumes encode cos_sim job_description processed_resumes =
     (case encode job_description of
        Inl e \<Rightarrow> Inl e
      | Inr job_embedding \<Rightarrow>
          (case score_all encode cos_sim job_embedding job_description processed_resumes of
             Inl e \<Rightarrow> Inl e
           | Inr scored_resumes \<Rightarrow> Inr (sort_reverse match_percentage scored_resumes)))"

subsection \<open>The conversation cache: class \<^verbatim>\<open>ChatStore\<close>\<close>

text \<open>
  A stored message \<^verbatim>\<open>{"role", "text", "ts"}\<close>, a record \<^verbatim>\<open>{"messages", "updated"}\<close> of the
  dictionary \<^verbatim>\<open>self.data\<close>, the store itself, and a \<^verbatim>\<open>{"role", "text"}\<close> item as returned by
  \<^verbatim>\<open>get\<close> (and as sent by the caller in the \<^verbatim>\<open>history\<close> field). The reading of the clock
  \<^verbatim>\<open>time.time()\<close> is the argument \<open>now\<close> of the two operations.
\<close>

record message =
  msg_role :: string
  msg_text :: string
  ts :: real

record entry =
  messages :: "message list"
  updated :: real

record chat_store =
  ttl :: real
  max_messages :: int
  data :: "string \<rightharpoonup> entry"

record turn =
  turn_role :: string
  turn_text :: string

definition ChatStore_init :: "real \<Rightarrow> int \<Rightarrow> chat_store" where
  "ChatStore_init ttl_sec max_msgs = \<lparr>ttl = ttl_sec, max_messages = max_msgs, data = Map.empty\<rparr>"

definition ChatStore_add :: "chat_store \<Rightarrow> real \<Rightarrow> string \<Rightarrow> string \<Rightarrow> string \<Rightarrow> chat_store" where
  "ChatStore_add self now cid role txt =
     (let entry = (case data self cid of Some e \<Rightarrow> e
                   | None \<Rightarrow> \<lparr>messages = [], updated = 0\<rparr>);
          msgs = messages entry @ [\<lparr>msg_role = role, msg_text = txt, ts = now\<rparr>];
          msgs' = (if int (length msgs) > max_messages self
                   then slice_from (- max_messages self) msgs else msgs)
      in self\<lparr>data := (data self)(cid \<mapsto> \<lparr>messages = msgs', updated = now\<rparr>)\<rparr>)"

definition ChatStore_get :: "chat_store \<Rightarrow> real \<Rightarrow> string \<Rightarrow> turn list \<times> chat_store" where
  "ChatStore_get self now cid =
     (case data self cid of
        None \<Rightarrow> ([], self)
      | Some e \<Rightarrow>
          if now - updated e > ttl self
          then ([], self\<lparr>data := (data self)(cid := None)\<rparr>)
          else (map (\<lambda>m. \<lparr>turn_role = msg_role m, turn_text = msg_text m\<rparr>) (messages e), self))"

text \<open>
  The stores that a sequence of calls can reach: each call is an \<open>Add\<close> or a \<open>Get\<close> with
  the reading of the clock at the call.
\<close>

datatype chat_op = Add real string string string | Get real string

fun chat_step :: "chat_store \<Rightarrow> chat_op \<Rightarrow> chat_store" where
  "chat_step s (Add now cid role txt) = ChatStore_add s now cid role txt"
| "chat_step s (Get now cid) = snd (ChatStore_get s now cid)"

definition chat_run :: "chat_store \<Rightarrow> chat_op list \<Rightarrow> chat_store" where
  "chat_run s ops = foldl chat_step s ops"

text \<open>Every record of the store holds at most \<^verbatim>\<open>max_messages\<close> messages.\<close>

definition bounded :: "chat_store \<Rightarrow> bool" where
  "bounded s = (\<forall>cid e. data s cid = Some e \<longrightarrow> int (length (messages e)) \<le> max_messages s)"

subsection \<open>The ranking endpoint: \<^verbatim>\<open>sort_resumes\<close>\<close>

text \<open>\<^verbatim>\<open>str.split()\<close>: the maximal runs of non-whitespace characters.\<close>

fun split_ws_loop :: "string \<Rightarrow> string \<Rightarrow> string list" where
  "split_ws_loop cur [] = (if cur = [] then [] else [cur])"
| "split_ws_loop cur (x # xs) =
     (if is_space x then (if cur = [] then split_ws_loop [] xs else cur # split_ws_loop [] xs)
      else split_ws_loop (cur @ [x]) xs)"

definition split_ws :: "string \<Rightarrow> string list" where
  "split_ws s = split_ws_loop [] s"

text \<open>\<^verbatim>\<open>max(xs, key=len)\<close> continued from a first candidate: the first longest string.\<close>

fun max_by_len :: "string \<Rightarrow> string list \<Rightarrow> string" where
  "max_by_len best [] = best"
| "max_by_len best (x # xs) = max_by_len (if length x > length best then x else best) xs"

text \<open>
  \<^verbatim>\<open>os.path.basename\<close> and the first component of \<^verbatim>\<open>os.path.splitext\<close> (of a name without
  directory): the name is cut at its last period, unless only periods come before it.
\<close>

definition path_basename :: "string \<Rightarrow> string" where
  "path_basename p = last (split_on (CHR ''/'') p)"

definition splitext_root :: "string \<Rightarrow> string" where
  "splitext_root b =
     (if CHR ''.'' \<notin> set b then b
      else let root = rev (tl (dropWhile (\<lambda>c. c \<noteq> CHR ''.'') (rev b)))
           in if list_ex (\<lambda>c. c \<noteq> CHR ''.'') root then root else b)"

text \<open>The nested helper \<^verbatim>\<open>_infer_name(entities, text, filename)\<close>.\<close>

definition looks_like_name :: "string \<Rightarrow> bool" where
  "looks_like_name line =
     (let clean = strip line in
      if clean = [] then False
      else if list_ex (\<lambda>x. contains x (lower clean)) [''resume'', ''curriculum'', ''profile'', ''summary'']
        then False
      else (case split_ws clean of
              [] \<Rightarrow> False
            | part # parts \<Rightarrow>
                2 \<le> length (part # parts) \<and> length (part # parts) \<le> 5 \<and>
                (case part of [] \<Rightarrow> False | c # _ \<Rightarrow> is_alpha c \<and> is_upper c)))"

definition infer_name :: "entities \<Rightarrow> string \<Rightarrow> string \<Rightarrow> string" where
  "infer_name ents txt fname =
     (let persons = entities_get ents ''PERSON'';
          from_person =
            (case persons of
               [] \<Rightarrow> None
             | p # ps \<Rightarrow>
                 (let candidate_name = max_by_len p ps
                  in if 2 \<le> length (split_ws candidate_name) \<and> length (split_ws candidate_name) \<le> 5
                     then Some (strip candidate_name) else None))
      in case from_person of
           Some n \<Rightarrow> n
         | None \<Rightarrow>
             (case find looks_like_name (take 8 (splitlines txt)) of
                Some line \<Rightarrow> strip line
              | None \<Rightarrow>
                  strip (map (\<lambda>c. if c = CHR ''_'' \<or> c = CHR ''-'' then CHR '' '' else c)
                             (splitext_root (path_basename fname)))))"

text \<open>
  An uploaded file (its name and its content, both possibly empty) and the resume
  processor. The processor reads PDF files and calls entity-recognition and summarisation
  models; these are outside the repository, so its five methods are parameters here, each
  returning its result or the exception it raised.
\<close>

record upload =
  up_filename :: string
  up_content :: string

record processor =
  extract_text :: "string \<Rightarrow> string \<Rightarrow> exn + string"
  extract_entities :: "string \<Rightarrow> exn + entities"
  generate_summary :: "string \<Rightarrow> exn + string"
  extract_skills :: "string \<Rightarrow> exn + string list"
  extract_education :: "string \<Rightarrow> exn + string list"

text \<open>
  One round of \<^verbatim>\<open>for resume_file in resumes\<close>: \<open>None\<close> when the file is skipped (no name,
  no content, no text, or an exception inside the \<^verbatim>\<open>try\<close>), the processed resume
  otherwise.
\<close>

definition process_file :: "processor \<Rightarrow> upload \<Rightarrow> resume_data option" where
  "process_file proc resume_file =
     (if up_filename resume_file = [] then None
      else if up_content resume_file = [] then None
      else case extract_text proc (up_content resume_file) (up_filename resume_file) of
        Inl e \<Rightarrow> None
      | Inr resume_text \<Rightarrow>
          if resume_text = [] then None
          else case extract_entities proc resume_text of
            Inl e \<Rightarrow> None
          | Inr ents \<Rightarrow>
             (case generate_summary proc resume_text of
                Inl e \<Rightarrow> None
              | Inr summ \<Rightarrow>
                 (case extract_skills proc resume_text of
                    Inl e \<Rightarrow> None
                  | Inr skls \<Rightarrow>
                     (case extract_education proc resume_text of
                        Inl e \<Rightarrow> None
                      | Inr edu \<Rightarrow>
                          Some \<lparr>rd_name = infer_name ents resume_text (up_filename resume_file),
                                rd_filename = up_filename resume_file,
                                rd_raw_text = resume_text,
                                rd_entities = ents,
                                rd_summary = summ,
                                rd_skills = skls,
                                rd_education = edu\<rparr>))))"

fun process_files :: "processor \<Rightarrow> upload list \<Rightarrow> resume_data list" where
  "process_files proc [] = []"
| "process_files proc (resume_file # resumes) =
     (case process_file proc resume_file of
        None \<Rightarrow> process_files proc resumes
      | Some rd \<Rightarrow> rd # process_files proc resumes)"

text \<open>The response models \<^verbatim>\<open>Candidate\<close> and \<^verbatim>\<open>SortResponse\<close>, and the HTTP error.\<close>

record Candidate =
  c_id :: string
  c_name :: string
  c_filename :: string
  c_score :: real
  c_matchPercentage :: int
  c_semanticScore :: real
  c_skillMatchRatio :: real
  c_experienceSignal :: real
  c_summary :: string
  c_extractedSkills :: "string list"
  c_extractedExperience :: "string list"
  c_extractedEducation :: "string list"
  c_feedback :: string
  c_evidence :: "string list"
  c_improvements :: "string list"
  c_jdSkills :: "string list"
  c_missingSkills :: "string list"
  c_skillEvidence :: "string \<rightharpoonup> string"
  c_rawText :: string

record SortResponse =
  candidates :: "Candidate list"
  jobDescription :: string
  analysisTime :: real

datatype http_error = HTTPException int string

text \<open>\<^verbatim>\<open>Candidate(id=str(uuid.uuid4()), name=score_data.get("name", ""), ...)\<close>.\<close>

definition make_candidate :: "string \<Rightarrow> scored \<Rightarrow> Candidate" where
  "make_candidate fresh_id score_data =
     \<lparr>c_id = fresh_id,
      c_name = name score_data,
      c_filename = filename score_data,
      c_score = score score_data,
      c_matchPercentage = match_percentage score_data,
      c_semanticScore = semantic_score score_data,
      c_skillMatchRatio = skill_match_ratio score_data,
      c_experienceSignal = experience_signal score_data,
      c_summary = summary score_data,
      c_extractedSkills = skills score_data,
      c_extractedExperience = experience score_data,
      c_extractedEducation = education score_data,
      c_feedback = feedback score_data,
      c_evidence = evidence score_data,
      c_improvements = improvements score_data,
      c_jdSkills = jd_skills score_data,
      c_missingSkills = missing_skills score_data,
      c_skillEvidence = skill_evidence score_data,
      c_rawText = raw_text score_data\<rparr>"

text \<open>
  The endpoint. \<open>uuid4 i\<close> is the identifier that the \<open>i\<close>-th call of \<^verbatim>\<open>uuid.uuid4()\<close> in
  the request returns; \<open>start_time\<close> and \<open>end_time\<close> are the two readings of the clock. The
  result is the response or the \<^verbatim>\<open>HTTPException\<close> raised: status 400 from the three
  checks, status 500 from the handler of any other exception.
\<close>

definition sort_resumes ::
  "processor \<Rightarrow> (string \<Rightarrow> exn + 'v) \<Rightarrow> ('v \<Rightarrow> 'v \<Rightarrow> real) \<Rightarrow> (nat \<Rightarrow> string) \<Rightarrow> real \<Rightarrow> real \<Rightarrow>
   string \<Rightarrow> upload list \<Rightarrow> http_error + SortResponse" where
  "sort_resumes proc encode cos_sim uuid4 start_time end_time job_description resumes =
     (if job_description = [] \<or> strip job_description = [] then
        Inl (HTTPException 400 ''Job description cannot be empty'')
      else if resumes = [] then
        Inl (HTTPException 400 ''At least one resume must be provided'')
      else
        let processed_resumes = process_files proc resumes in
        if processed_resumes = [] then
          Inl (HTTPException 400 ''No valid resumes could be processed'')
        else
          case score_resumes encode cos_sim job_description processed_resumes of
            Inl (Exception msg) \<Rightarrow> Inl (HTTPException 500 (''Internal server error: '' @ msg))
          | Inr scores_data \<Rightarrow>
              Inr \<lparr>candidates =
                     sort_reverse c_matchPercentage
                       (map (\<lambda>(idx, score_data). make_candidate (uuid4 idx) score_data)
                            (enumerate 0 scores_data)),
                   jobDescription = job_description,
                   analysisTime = end_time - start_time\<rparr>)"

subsection \<open>Example inputs\<close>


definition ex_encode_partial :: "string \<Rightarrow> exn + string" where
  "ex_encode_partial t = (if contains ''corrupt'' t then Inl (Exception ''cannot encode'') else Inr t)"







section \<open>Properties\<close>

subsection \<open>Strings and the chunker\<close>

lemma split_on_nonempty [simp]: "split_on c s \<noteq> []"
  by (induction s) (auto split: list.splits)

lemma split_on_free: "p \<in> set (split_on c s) \<Longrightarrow> c \<notin> set p"
  by (induction s arbitrary: p) (auto split: if_splits list.splits)

lemma split_on_no_sep: "c \<notin> set a \<Longrightarrow> split_on c a = [a]"
  by (induction a) auto

lemma split_on_append: "c \<notin> set a \<Longrightarrow> split_on c (a @ c # b) = a # split_on c b"
  by (induction a) auto

lemma strip_subset: "set (strip s) \<subseteq> set s"
  by (auto simp: strip_def dest!: set_dropWhileD)

lemma strip_Cons_space: "is_space x \<Longrightarrow> strip (x # s) = strip s"
  by (simp add: strip_def)

lemma rev_dropWhile_prefix:
  "a = rev (dropWhile P (rev a)) @ rev (takeWhile P (rev a))"
proof -
  have "rev (rev a) = rev (takeWhile P (rev a) @ dropWhile P (rev a))"
    by (simp only: takeWhile_dropWhile_id)
  then show ?thesis by (simp only: rev_rev_ident rev_append)
qed

lemma strip_idem: "strip (strip s) = strip s"
proof -
  define a where "a = dropWhile is_space s"
  define b where "b = rev (dropWhile is_space (rev a))"
  have split: "a = b @ rev (takeWhile is_space (rev a))"
    unfolding b_def by (rule rev_dropWhile_prefix)
  have hd_a: "a \<noteq> [] \<Longrightarrow> \<not> is_space (hd a)"
    unfolding a_def by (rule hd_dropWhile)
  have "dropWhile is_space b = b"
  proof (cases "b = []")
    case True then show ?thesis by simp
  next
    case False
    have "hd (b @ rev (takeWhile is_space (rev a))) = hd b"
      using False by (rule hd_append2)
    then have "hd b = hd a" using split by simp
    moreover have "a \<noteq> []" using False split by auto
    ultimately show ?thesis using hd_a False by (simp add: dropWhile_eq_self_iff)
  qed
  moreover have "rev b = dropWhile is_space (rev a)" by (simp add: b_def)
  moreover have "dropWhile is_space (dropWhile is_space (rev a)) = dropWhile is_space (rev a)"
    by (rule dropWhile_idem)
  moreover have "rev (dropWhile is_space (rev a)) = b" by (simp add: b_def)
  ultimately have "strip b = b"
    unfolding strip_def by (simp only:)
  then show ?thesis by (simp add: strip_def a_def b_def)
qed

lemma chunk_loop_groups:
  "create_chunks_loop n ss (map close_chunk groups) cur (sum_list (map length cur))
     = map close_chunk (chunk_groups_loop n ss groups cur)"
proof (induction ss arbitrary: groups cur)
  case Nil then show ?case by simp
next
  case (Cons s ss)
  show ?case
    using Cons.IH[of groups cur] Cons.IH[of "groups @ [cur]" "[strip s]"]
          Cons.IH[of groups "cur @ [strip s]"]
    by (simp add: Let_def)
qed

lemma groups_concat:
  "concat (chunk_groups_loop n ss groups cur)
     = concat groups @ cur @ filter (\<lambda>s. s \<noteq> []) (map strip ss)"
  by (induction ss arbitrary: groups cur) (auto simp: Let_def)


lemma strip_Nil [simp]: "strip [] = []"
  by (simp add: strip_def)

lemma sentence_ok_strip:
  "CHR ''.'' \<notin> set s \<Longrightarrow> strip s \<noteq> [] \<Longrightarrow> sentence_ok (strip s)"
  using strip_subset[of s] by (auto simp: sentence_ok_def strip_idem)

lemma sentences_of_sep:
  "CHR ''.'' \<notin> set a \<Longrightarrow>
     sentences_of (a @ CHR ''.'' # r) = (if strip a = [] then [] else [strip a]) @ sentences_of r"
  by (simp add: sentences_of_def split_on_append)

lemma sentences_of_space:
  "is_space x \<Longrightarrow> x \<noteq> CHR ''.'' \<Longrightarrow> sentences_of (x # r) = sentences_of r"
proof -
  assume x: "is_space x" "x \<noteq> CHR ''.''"
  obtain h t where ht: "split_on (CHR ''.'') r = h # t"
    by (cases "split_on (CHR ''.'') r") auto
  show ?thesis using x ht by (simp add: sentences_of_def strip_Cons_space)
qed

lemma sentences_of_close:
  "g \<noteq> [] \<Longrightarrow> list_all sentence_ok g \<Longrightarrow> sentences_of (close_chunk g) = g"
proof (induction "''. ''" g rule: join.induct)
  case 1
  then show ?case by simp
next
  case (2 x)
  have "close_chunk [x] = x @ CHR ''.'' # []" by (simp add: close_chunk_def)
  moreover have "sentences_of [] = []" by (simp add: sentences_of_def)
  ultimately show ?case using 2 by (simp add: sentences_of_sep sentence_ok_def)
next
  case (3 x y ys)
  have sp: "is_space (CHR '' '')" by (simp add: is_space_def)
  have IH: "sentences_of (close_chunk (y # ys)) = y # ys" using 3 by simp
  have "close_chunk (x # y # ys) = x @ CHR ''.'' # CHR '' '' # close_chunk (y # ys)"
    by (simp add: close_chunk_def)
  then have "sentences_of (close_chunk (x # y # ys)) = [x] @ sentences_of (close_chunk (y # ys))"
    using 3(3) sp by (simp add: sentences_of_sep sentences_of_space sentence_ok_def)
  then show ?case using IH by simp
qed

lemma groups_ok:
  "list_all (group_ok n) groups \<Longrightarrow> cur = [] \<or> group_ok n cur \<Longrightarrow>
   \<forall>s\<in>set ss. CHR ''.'' \<notin> set s \<Longrightarrow>
   list_all (group_ok n) (chunk_groups_loop n ss groups cur)"
proof (induction ss arbitrary: groups cur)
  case Nil
  then show ?case by auto
next
  case (Cons s ss)
  show ?case
  proof (cases "strip s = []")
    case True
    then show ?thesis using Cons by simp
  next
    case False
    have ok: "sentence_ok (strip s)" using Cons.prems(3) False by (simp add: sentence_ok_strip)
    have rest: "\<forall>s\<in>set ss. CHR ''.'' \<notin> set s" using Cons.prems(3) by simp
    show ?thesis
    proof (cases "int (sum_list (map length cur) + length (strip s)) > n \<and> cur \<noteq> []")
      case True
      have "list_all (group_ok n) (groups @ [cur])" using Cons.prems True by auto
      moreover have "group_ok n [strip s]" using ok by (simp add: group_ok_def)
      ultimately have "list_all (group_ok n) (chunk_groups_loop n ss (groups @ [cur]) [strip s])"
        using Cons.IH[of "groups @ [cur]" "[strip s]"] rest by simp
      moreover have "chunk_groups_loop n (s # ss) groups cur
                       = chunk_groups_loop n ss (groups @ [cur]) [strip s]"
        using True False by (simp add: Let_def)
      ultimately show ?thesis by simp
    next
      case F2: False
      have "group_ok n (cur @ [strip s])"
      proof (cases "cur = []")
        case True then show ?thesis using ok by (simp add: group_ok_def)
      next
        case False
        then have "group_ok n cur" using Cons.prems(2) by simp
        then show ?thesis using F2 False ok by (auto simp: group_ok_def)
      qed
      then have "list_all (group_ok n) (chunk_groups_loop n ss groups (cur @ [strip s]))"
        using Cons.IH[of groups "cur @ [strip s]"] Cons.prems(1) rest by simp
      moreover have "chunk_groups_loop n (s # ss) groups cur
                       = chunk_groups_loop n ss groups (cur @ [strip s])"
        using F2 False by (auto simp: Let_def)
      ultimately show ?thesis by simp
    qed
  qed
qed

lemma create_chunks_groups:
  "create_chunks text n =
     (let gs = chunk_groups_loop n (split_on (CHR ''.'') text) [] []
      in if gs \<noteq> [] then map close_chunk gs else [text])"
  using chunk_loop_groups[of n "split_on (CHR ''.'') text" "[]" "[]"]
  by (simp add: create_chunks_def Let_def)

lemma text_groups_ok:
  "list_all (group_ok n) (chunk_groups_loop n (split_on (CHR ''.'') text) [] [])"
  by (rule groups_ok) (auto dest: split_on_free)

lemma text_groups_concat:
  "concat (chunk_groups_loop n (split_on (CHR ''.'') text) [] []) = sentences_of text"
  by (simp add: groups_concat sentences_of_def)

lemma map_sentences_of_close:
  "list_all (group_ok n) gs \<Longrightarrow> map sentences_of (map close_chunk gs) = gs"
  by (induction gs) (auto simp: group_ok_def sentences_of_close)

lemma close_chunk_nonempty: "close_chunk g \<noteq> []"
  by (simp add: close_chunk_def)

lemma sentences_of_Nil: "sentences_of [] = []"
  by (simp add: sentences_of_def)

text \<open>
  Claim C4, as amended. For every text and size: if the text has no sentence, the result
  is the single chunk holding the text unchanged; otherwise the sentences of the chunks,
  read chunk after chunk, are exactly the sentences of the text, each once and in source
  order; and for a non-empty text no chunk is empty.
\<close>

theorem create_chunks_content:
  "(sentences_of text = [] \<longrightarrow> create_chunks text n = [text]) \<and>
   (sentences_of text \<noteq> [] \<longrightarrow>
      concat (map sentences_of (create_chunks text n)) = sentences_of text) \<and>
   (text \<noteq> [] \<longrightarrow> (\<forall>c\<in>set (create_chunks text n). c \<noteq> []))"
proof -
  define gs where "gs = chunk_groups_loop n (split_on (CHR ''.'') text) [] []"
  have ok: "list_all (group_ok n) gs" unfolding gs_def by (rule text_groups_ok)
  have cc: "concat gs = sentences_of text" unfolding gs_def by (rule text_groups_concat)
  have cr: "create_chunks text n = (if gs \<noteq> [] then map close_chunk gs else [text])"
    unfolding gs_def by (simp add: create_chunks_groups Let_def)
  have ne: "gs \<noteq> [] \<Longrightarrow> sentences_of text \<noteq> []"
  proof -
    assume "gs \<noteq> []"
    then obtain g gs' where "gs = g # gs'" by (cases gs) auto
    then show ?thesis using ok cc by (auto simp: group_ok_def)
  qed
  have a: "sentences_of text = [] \<longrightarrow> create_chunks text n = [text]"
    using ne cr by auto
  have b: "sentences_of text \<noteq> [] \<longrightarrow>
      concat (map sentences_of (create_chunks text n)) = sentences_of text"
  proof
    assume "sentences_of text \<noteq> []"
    then have "gs \<noteq> []" using cc by auto
    then show "concat (map sentences_of (create_chunks text n)) = sentences_of text"
      using cr cc map_sentences_of_close[OF ok] by simp
  qed
  have c: "text \<noteq> [] \<longrightarrow> (\<forall>c\<in>set (create_chunks text n). c \<noteq> [])"
    using cr by (auto simp: close_chunk_nonempty)
  show ?thesis using a b c by blast
qed

theorem create_chunks_content_witness:
  "sentences_of [] = [] \<and> create_chunks [] 15 = [[]] \<and>
   sentences_of ''Hello world. This is it.  And more. x'' \<noteq> [] \<and>
   concat (map sentences_of (create_chunks ''Hello world. This is it.  And more. x'' 15))
     = sentences_of ''Hello world. This is it.  And more. x'' \<and>
   [] \<notin> set (create_chunks ''Hello world. This is it.  And more. x'' 15)"
proof -
  have h1: "sentences_of [] = []" by (rule sentences_of_Nil)
  have h2: "sentences_of ''Hello world. This is it.  And more. x'' \<noteq> []"
    by (simp add: sentences_of_def strip_def is_space_def)
  have h3: "''Hello world. This is it.  And more. x'' \<noteq> []" by simp
  show ?thesis
    using h1 h2 h3 create_chunks_content[of "[]" 15]
      create_chunks_content[of "''Hello world. This is it.  And more. x''" 15]
    by blast
qed

text \<open>
  Claim C4 as stated (no chunk is ever empty) fails on the empty text, which has no
  sentence and comes back as the only chunk.
\<close>

theorem create_chunks_empty_counterexample: "create_chunks [] 500 = [[]]"
  by (simp add: create_chunks_def)

text \<open>
  Claim C10. In every chunk with two or more sentences the lengths of the (stripped)
  sentences add up to at most the size; so a chunk whose sentences exceed the size
  consists of one sentence, itself longer than the size.
\<close>

theorem create_chunks_budget:
  "\<forall>c\<in>set (create_chunks text n).
     (2 \<le> length (sentences_of c) \<longrightarrow> int (sum_list (map length (sentences_of c))) \<le> n) \<and>
     (sentences_of c \<noteq> [] \<and> int (sum_list (map length (sentences_of c))) > n \<longrightarrow>
        (\<exists>s. sentences_of c = [s] \<and> int (length s) > n))"
proof
  fix c assume c: "c \<in> set (create_chunks text n)"
  define gs where "gs = chunk_groups_loop n (split_on (CHR ''.'') text) [] []"
  have ok: "list_all (group_ok n) gs" unfolding gs_def by (rule text_groups_ok)
  have cc: "concat gs = sentences_of text" unfolding gs_def by (rule text_groups_concat)
  have cr: "create_chunks text n = (if gs \<noteq> [] then map close_chunk gs else [text])"
    unfolding gs_def by (simp add: create_chunks_groups Let_def)
  have first: "2 \<le> length (sentences_of c) \<longrightarrow> int (sum_list (map length (sentences_of c))) \<le> n"
  proof (cases "gs = []")
    case True
    then have "c = text" "sentences_of text = []" using c cr cc by auto
    then show ?thesis by simp
  next
    case False
    then obtain g where g: "g \<in> set gs" "c = close_chunk g" using c cr by auto
    then have gok: "group_ok n g" using ok by (simp add: list_all_iff)
    then have "sentences_of c = g" using g by (simp add: group_ok_def sentences_of_close)
    then show ?thesis using gok by (simp add: group_ok_def)
  qed
  have second: "sentences_of c \<noteq> [] \<and> int (sum_list (map length (sentences_of c))) > n \<longrightarrow>
        (\<exists>s. sentences_of c = [s] \<and> int (length s) > n)"
  proof
    assume h: "sentences_of c \<noteq> [] \<and> int (sum_list (map length (sentences_of c))) > n"
    then have "\<not> 2 \<le> length (sentences_of c)" using first by auto
    then obtain s where "sentences_of c = [s]" using h
      by (cases "sentences_of c") (auto simp: Suc_le_eq)
    then show "\<exists>s. sentences_of c = [s] \<and> int (length s) > n" using h by auto
  qed
  show "(2 \<le> length (sentences_of c) \<longrightarrow> int (sum_list (map length (sentences_of c))) \<le> n) \<and>
     (sentences_of c \<noteq> [] \<and> int (sum_list (map length (sentences_of c))) > n \<longrightarrow>
        (\<exists>s. sentences_of c = [s] \<and> int (length s) > n))"
    using first second by blast
qed

theorem create_chunks_budget_witness:
  "''And more. x.'' \<in> set (create_chunks ''Hello world. This is it.  And more. x'' 15) \<and>
   2 \<le> length (sentences_of ''And more. x.'') \<and>
   int (sum_list (map length (sentences_of ''And more. x.''))) \<le> 15 \<and>
   ''A very long sentence.'' \<in> set (create_chunks ''Hi. A very long sentence. Bye'' 5) \<and>
   sentences_of ''A very long sentence.'' \<noteq> [] \<and>
   int (sum_list (map length (sentences_of ''A very long sentence.''))) > 5 \<and>
   (\<exists>s. sentences_of ''A very long sentence.'' = [s] \<and> int (length s) > 5)"
proof -
  have m1: "''And more. x.'' \<in> set (create_chunks ''Hello world. This is it.  And more. x'' 15)"
    by (simp add: create_chunks_def strip_def is_space_def close_chunk_def Let_def)
  have l1: "2 \<le> length (sentences_of ''And more. x.'')"
    by (simp add: sentences_of_def strip_def is_space_def)
  have m2: "''A very long sentence.'' \<in> set (create_chunks ''Hi. A very long sentence. Bye'' 5)"
    by (simp add: create_chunks_def strip_def is_space_def close_chunk_def Let_def)
  have l2: "sentences_of ''A very long sentence.'' \<noteq> [] \<and>
            int (sum_list (map length (sentences_of ''A very long sentence.''))) > 5"
    by (simp add: sentences_of_def strip_def is_space_def)
  show ?thesis
    using m1 l1 m2 l2
      create_chunks_budget[of "''Hello world. This is it.  And more. x''" 15]
      create_chunks_budget[of "''Hi. A very long sentence. Bye''" 5]
    by blast
qed

subsection \<open>The conversation cache\<close>

lemma add_params [simp]:
  "ttl (ChatStore_add s now cid r t) = ttl s"
  "max_messages (ChatStore_add s now cid r t) = max_messages s"
  by (simp_all add: ChatStore_add_def Let_def)

lemma get_params [simp]:
  "ttl (snd (ChatStore_get s now cid)) = ttl s"
  "max_messages (snd (ChatStore_get s now cid)) = max_messages s"
  by (simp_all add: ChatStore_get_def split: option.splits)

lemma step_params [simp]:
  "ttl (chat_step s op) = ttl s" "max_messages (chat_step s op) = max_messages s"
  by (cases op; simp)+

lemma run_params [simp]:
  "ttl (chat_run s ops) = ttl s" "max_messages (chat_run s ops) = max_messages s"
  unfolding chat_run_def by (induction ops arbitrary: s; simp)+

lemma slice_from_last:
  "0 < m \<Longrightarrow> int (length xs) > m \<Longrightarrow> length (slice_from (- m) xs) = nat m"
  by (auto simp: slice_from_def Let_def)

lemma add_bounded: "0 < max_messages s \<Longrightarrow> bounded s \<Longrightarrow> bounded (ChatStore_add s now cid r t)"
  unfolding bounded_def
  by (auto simp: ChatStore_add_def Let_def slice_from_last split: option.splits if_splits)

lemma get_bounded: "bounded s \<Longrightarrow> bounded (snd (ChatStore_get s now cid))"
  unfolding bounded_def by (auto simp: ChatStore_get_def split: option.splits if_splits)

lemma step_bounded: "0 < max_messages s \<Longrightarrow> bounded s \<Longrightarrow> bounded (chat_step s op)"
  by (cases op) (simp_all add: add_bounded get_bounded)

lemma run_bounded: "0 < max_messages s \<Longrightarrow> bounded s \<Longrightarrow> bounded (chat_run s ops)"
  unfolding chat_run_def
proof (induction ops arbitrary: s)
  case Nil then show ?case by simp
next
  case (Cons op ops)
  then show ?case using step_bounded[of s op] by simp
qed

lemma init_bounded: "bounded (ChatStore_init t m)"
  by (simp add: bounded_def ChatStore_init_def)

lemma add_full:
  assumes "max_messages s = 60" "data s cid = Some e" "length (messages e) = 60"
  shows "data (ChatStore_add s now cid r t) cid
           = Some \<lparr>messages = tl (messages e) @ [\<lparr>msg_role = r, msg_text = t, ts = now\<rparr>],
                   updated = now\<rparr>"
proof -
  obtain m ms where "messages e = m # ms" using assms(3) by (cases "messages e") auto
  then show ?thesis using assms
    by (simp add: ChatStore_add_def Let_def slice_from_def)
qed


lemma add_room:
  assumes "max_messages s = 60" "data s cid = Some e" "length (messages e) < 60"
  shows "data (ChatStore_add s now cid r t) cid
           = Some \<lparr>messages = messages e @ [\<lparr>msg_role = r, msg_text = t, ts = now\<rparr>],
                   updated = now\<rparr>"
  using assms by (simp add: ChatStore_add_def Let_def)

lemma add_create:
  assumes "max_messages s = 60" "data s cid = None"
  shows "data (ChatStore_add s now cid r t) cid
           = Some \<lparr>messages = [\<lparr>msg_role = r, msg_text = t, ts = now\<rparr>], updated = now\<rparr>"
  using assms by (simp add: ChatStore_add_def Let_def)

lemma add_frame: "c \<noteq> cid \<Longrightarrow> data (ChatStore_add s now cid r t) c = data s c"
  by (simp add: ChatStore_add_def Let_def)

lemma get_frame:
  "c \<noteq> cid \<Longrightarrow>
     fst (ChatStore_get (ChatStore_add s now cid r t) now' c) = fst (ChatStore_get s now' c)"
  by (simp add: ChatStore_get_def add_frame split: option.splits)

lemma get_late:
  "ttl s = 86400 \<Longrightarrow> data s cid = Some e \<Longrightarrow> now - updated e > 86400 \<Longrightarrow>
     ChatStore_get s now cid = ([], s\<lparr>data := (data s)(cid := None)\<rparr>)"
  by (simp add: ChatStore_get_def)

lemma get_early:
  "ttl s = 86400 \<Longrightarrow> data s cid = Some e \<Longrightarrow> now - updated e \<le> 86400 \<Longrightarrow>
     ChatStore_get s now cid
       = (map (\<lambda>m. \<lparr>turn_role = msg_role m, turn_text = msg_text m\<rparr>) (messages e), s)"
  by (simp add: ChatStore_get_def)

text \<open>
  Claim C8. In every store \<open>s\<close> reached from \<^verbatim>\<open>ChatStore()\<close> (TTL 86400 seconds, 60
  messages) by calls of \<^verbatim>\<open>add\<close> and \<^verbatim>\<open>get\<close>:
  \<^item> each record holds at most 60 messages;
  \<^item> \<^verbatim>\<open>add\<close> creates the record of a new conversation with the one message, appends to a
    record of fewer than 60 messages, and on a record of 60 drops the oldest message and
    appends the new one; in each case it stamps the record with the time of the call, and
    it leaves the record of every other conversation as it is (so it never evicts);
  \<^item> \<^verbatim>\<open>get\<close> of an absent conversation returns the empty transcript; a read more than
    86400 seconds after the last update returns the empty transcript and removes the
    record; a read at most 86400 seconds after it returns the messages in order and
    leaves the store as it is;
  \<^item> so a message added and read back within 86400 seconds is the last entry of the
    transcript returned, after the earlier entries in order, and read back later than
    that gives the empty transcript; the transcript of another conversation is the same
    before and after the \<^verbatim>\<open>add\<close>.
\<close>

theorem ChatStore_window_ttl:
  assumes "s = chat_run (ChatStore_init 86400 60) ops"
  shows "(\<forall>e. data s cid = Some e \<longrightarrow> length (messages e) \<le> 60) \<and>
         (data s cid = None \<longrightarrow>
            data (ChatStore_add s now cid r t) cid
              = Some \<lparr>messages = [\<lparr>msg_role = r, msg_text = t, ts = now\<rparr>], updated = now\<rparr>) \<and>
         (\<forall>e. data s cid = Some e \<and> length (messages e) < 60 \<longrightarrow>
            data (ChatStore_add s now cid r t) cid
              = Some \<lparr>messages = messages e @ [\<lparr>msg_role = r, msg_text = t, ts = now\<rparr>],
                      updated = now\<rparr>) \<and>
         (\<forall>e. data s cid = Some e \<and> length (messages e) = 60 \<longrightarrow>
            data (ChatStore_add s now cid r t) cid
              = Some \<lparr>messages = tl (messages e) @ [\<lparr>msg_role = r, msg_text = t, ts = now\<rparr>],
                      updated = now\<rparr>) \<and>
         (\<forall>c. c \<noteq> cid \<longrightarrow> data (ChatStore_add s now cid r t) c = data s c) \<and>
         ttl (ChatStore_add s now cid r t) = 86400 \<and>
         max_messages (ChatStore_add s now cid r t) = 60 \<and>
         (data s cid = None \<longrightarrow> ChatStore_get s now cid = ([], s)) \<and>
         (\<forall>e. data s cid = Some e \<and> now - updated e > 86400 \<longrightarrow>
            ChatStore_get s now cid = ([], s\<lparr>data := (data s)(cid := None)\<rparr>)) \<and>
         (\<forall>e. data s cid = Some e \<and> now - updated e \<le> 86400 \<longrightarrow>
            ChatStore_get s now cid
              = (map (\<lambda>m. \<lparr>turn_role = msg_role m, turn_text = msg_text m\<rparr>) (messages e), s)) \<and>
         (now' - now \<le> 86400 \<longrightarrow>
            (data s cid = None \<longrightarrow>
               fst (ChatStore_get (ChatStore_add s now cid r t) now' cid)
                 = [\<lparr>turn_role = r, turn_text = t\<rparr>]) \<and>
            (\<forall>e. data s cid = Some e \<and> length (messages e) < 60 \<longrightarrow>
               fst (ChatStore_get (ChatStore_add s now cid r t) now' cid)
                 = map (\<lambda>m. \<lparr>turn_role = msg_role m, turn_text = msg_text m\<rparr>) (messages e)
                   @ [\<lparr>turn_role = r, turn_text = t\<rparr>]) \<and>
            (\<forall>e. data s cid = Some e \<and> length (messages e) = 60 \<longrightarrow>
               fst (ChatStore_get (ChatStore_add s now cid r t) now' cid)
                 = map (\<lambda>m. \<lparr>turn_role = msg_role m, turn_text = msg_text m\<rparr>) (tl (messages e))
                   @ [\<lparr>turn_role = r, turn_text = t\<rparr>])) \<and>
         (now' - now > 86400 \<longrightarrow>
            fst (ChatStore_get (ChatStore_add s now cid r t) now' cid) = [] \<and>
            data (snd (ChatStore_get (ChatStore_add s now cid r t) now' cid)) cid = None) \<and>
         (\<forall>c. c \<noteq> cid \<longrightarrow>
            fst (ChatStore_get (ChatStore_add s now cid r t) now' c) = fst (ChatStore_get s now' c))"
proof -
  have mm: "max_messages s = 60" and tt: "ttl s = 86400"
    using assms by (simp_all add: ChatStore_init_def)
  let ?s' = "ChatStore_add s now cid r t"
  let ?new = "\<lparr>msg_role = r, msg_text = t, ts = now\<rparr>"
  have tt': "ttl ?s' = 86400" and mm': "max_messages ?s' = 60" using mm tt by simp_all
  have "bounded s"
    unfolding assms by (rule run_bounded) (simp_all add: init_bounded, simp add: ChatStore_init_def)
  then have c1: "\<forall>e. data s cid = Some e \<longrightarrow> length (messages e) \<le> 60"
    using mm by (fastforce simp: bounded_def)
  have c2: "data s cid = None \<longrightarrow>
            data ?s' cid = Some \<lparr>messages = [?new], updated = now\<rparr>"
    using add_create[OF mm] by blast
  have c3: "\<forall>e. data s cid = Some e \<and> length (messages e) < 60 \<longrightarrow>
            data ?s' cid = Some \<lparr>messages = messages e @ [?new], updated = now\<rparr>"
    using add_room[OF mm] by blast
  have c4: "\<forall>e. data s cid = Some e \<and> length (messages e) = 60 \<longrightarrow>
            data ?s' cid = Some \<lparr>messages = tl (messages e) @ [?new], updated = now\<rparr>"
    using add_full[OF mm] by blast
  have c5: "\<forall>c. c \<noteq> cid \<longrightarrow> data ?s' c = data s c"
    by (simp add: add_frame)
  have c8: "data s cid = None \<longrightarrow> ChatStore_get s now cid = ([], s)"
    by (simp add: ChatStore_get_def)
  have c9: "\<forall>e. data s cid = Some e \<and> now - updated e > 86400 \<longrightarrow>
            ChatStore_get s now cid = ([], s\<lparr>data := (data s)(cid := None)\<rparr>)"
    using get_late[OF tt] by blast
  have c10: "\<forall>e. data s cid = Some e \<and> now - updated e \<le> 86400 \<longrightarrow>
            ChatStore_get s now cid
              = (map (\<lambda>m. \<lparr>turn_role = msg_role m, turn_text = msg_text m\<rparr>) (messages e), s)"
    using get_early[OF tt] by blast
  have c11: "now' - now \<le> 86400 \<longrightarrow>
            (data s cid = None \<longrightarrow>
               fst (ChatStore_get ?s' now' cid) = [\<lparr>turn_role = r, turn_text = t\<rparr>]) \<and>
            (\<forall>e. data s cid = Some e \<and> length (messages e) < 60 \<longrightarrow>
               fst (ChatStore_get ?s' now' cid)
                 = map (\<lambda>m. \<lparr>turn_role = msg_role m, turn_text = msg_text m\<rparr>) (messages e)
                   @ [\<lparr>turn_role = r, turn_text = t\<rparr>]) \<and>
            (\<forall>e. data s cid = Some e \<and> length (messages e) = 60 \<longrightarrow>
               fst (ChatStore_get ?s' now' cid)
                 = map (\<lambda>m. \<lparr>turn_role = msg_role m, turn_text = msg_text m\<rparr>) (tl (messages e))
                   @ [\<lparr>turn_role = r, turn_text = t\<rparr>])"
  proof (intro impI conjI allI)
    assume w: "now' - now \<le> 86400"
    { assume "data s cid = None"
      then have "data ?s' cid = Some \<lparr>messages = [?new], updated = now\<rparr>" using c2 by simp
      then show "fst (ChatStore_get ?s' now' cid) = [\<lparr>turn_role = r, turn_text = t\<rparr>]"
        using get_early[OF tt', of cid _ now'] w by simp }
    { fix e assume "data s cid = Some e \<and> length (messages e) < 60"
      then have "data ?s' cid = Some \<lparr>messages = messages e @ [?new], updated = now\<rparr>"
        using c3 by simp
      then show "fst (ChatStore_get ?s' now' cid)
                 = map (\<lambda>m. \<lparr>turn_role = msg_role m, turn_text = msg_text m\<rparr>) (messages e)
                   @ [\<lparr>turn_role = r, turn_text = t\<rparr>]"
        using get_early[OF tt', of cid _ now'] w by simp }
    { fix e assume "data s cid = Some e \<and> length (messages e) = 60"
      then have "data ?s' cid = Some \<lparr>messages = tl (messages e) @ [?new], updated = now\<rparr>"
        using c4 by simp
      then show "fst (ChatStore_get ?s' now' cid)
                 = map (\<lambda>m. \<lparr>turn_role = msg_role m, turn_text = msg_text m\<rparr>) (tl (messages e))
                   @ [\<lparr>turn_role = r, turn_text = t\<rparr>]"
        using get_early[OF tt', of cid _ now'] w by simp }
  qed
  have ex: "\<exists>e'. data ?s' cid = Some e' \<and> updated e' = now"
    by (simp add: ChatStore_add_def Let_def)
  have c12: "now' - now > 86400 \<longrightarrow>
            fst (ChatStore_get ?s' now' cid) = [] \<and>
            data (snd (ChatStore_get ?s' now' cid)) cid = None"
  proof
    assume w: "now' - now > 86400"
    obtain e' where e': "data ?s' cid = Some e'" "updated e' = now" using ex by blast
    have "ChatStore_get ?s' now' cid = ([], ?s'\<lparr>data := (data ?s')(cid := None)\<rparr>)"
      using get_late[OF tt' e'(1), of now'] w e'(2) by simp
    then show "fst (ChatStore_get ?s' now' cid) = [] \<and>
            data (snd (ChatStore_get ?s' now' cid)) cid = None" by simp
  qed
  have c13: "\<forall>c. c \<noteq> cid \<longrightarrow>
            fst (ChatStore_get ?s' now' c) = fst (ChatStore_get s now' c)"
    by (simp add: get_frame)
  show ?thesis
    using c1 c2 c3 c4 c5 tt' mm' c8 c9 c10 c11 c12 c13 by (intro conjI)
qed

lemma run_replicate:
  "max_messages s = 60 \<Longrightarrow> k + n \<le> 60 \<Longrightarrow>
   data s c = (if k = 0 then None
               else Some \<lparr>messages = replicate k \<lparr>msg_role = r, msg_text = t, ts = t0\<rparr>, updated = t0\<rparr>) \<Longrightarrow>
   data (chat_run s (replicate n (Add t0 c r t))) c =
     (if k + n = 0 then None
      else Some \<lparr>messages = replicate (k + n) \<lparr>msg_role = r, msg_text = t, ts = t0\<rparr>, updated = t0\<rparr>)"
proof (induction n arbitrary: s k)
  case 0
  then show ?case by (simp add: chat_run_def)
next
  case (Suc n)
  let ?s' = "ChatStore_add s t0 c r t"
  have d: "data ?s' c = Some \<lparr>messages = replicate (Suc k) \<lparr>msg_role = r, msg_text = t, ts = t0\<rparr>, updated = t0\<rparr>"
    using Suc.prems by (simp add: ChatStore_add_def Let_def replicate_append_same)
  have "data (chat_run ?s' (replicate n (Add t0 c r t))) c =
     (if Suc k + n = 0 then None
      else Some \<lparr>messages = replicate (Suc k + n) \<lparr>msg_role = r, msg_text = t, ts = t0\<rparr>, updated = t0\<rparr>)"
    by (rule Suc.IH) (use Suc.prems d in simp_all)
  then show ?case by (simp add: chat_run_def)
qed

lemma run_replicate_frame:
  "c' \<noteq> c \<Longrightarrow> data (chat_run s (replicate n (Add t0 c r t))) c' = data s c'"
  by (induction n arbitrary: s) (simp_all add: chat_run_def add_frame)

theorem ChatStore_window_ttl_witness:
  "data (ChatStore_add
           (chat_run (ChatStore_init 86400 60)
              [Add 100 ''a'' ''user'' ''hi'', Add 200 ''b'' ''user'' ''yo''])
           300 ''c'' ''user'' ''new'') ''c''
     = Some \<lparr>messages = [\<lparr>msg_role = ''user'', msg_text = ''new'', ts = 300\<rparr>], updated = 300\<rparr> \<and>
   data (ChatStore_add
           (chat_run (ChatStore_init 86400 60)
              [Add 100 ''a'' ''user'' ''hi'', Add 200 ''b'' ''user'' ''yo''])
           300 ''c'' ''user'' ''new'') ''a''
     = Some \<lparr>messages = [\<lparr>msg_role = ''user'', msg_text = ''hi'', ts = 100\<rparr>], updated = 100\<rparr> \<and>
   fst (ChatStore_get
          (ChatStore_add
             (chat_run (ChatStore_init 86400 60)
                [Add 100 ''a'' ''user'' ''hi'', Add 200 ''b'' ''user'' ''yo''])
             300 ''a'' ''assistant'' ''ok'') 86700 ''a'')
     = [\<lparr>turn_role = ''user'', turn_text = ''hi''\<rparr>, \<lparr>turn_role = ''assistant'', turn_text = ''ok''\<rparr>] \<and>
   fst (ChatStore_get
          (ChatStore_add
             (chat_run (ChatStore_init 86400 60)
                [Add 100 ''a'' ''user'' ''hi'', Add 200 ''b'' ''user'' ''yo''])
             300 ''a'' ''assistant'' ''ok'') 86701 ''a'') = [] \<and>
   fst (ChatStore_get
          (chat_run (ChatStore_init 86400 60)
             [Add 100 ''a'' ''user'' ''hi'', Add 200 ''b'' ''user'' ''yo'']) 86500 ''a'')
     = [\<lparr>turn_role = ''user'', turn_text = ''hi''\<rparr>] \<and>
   data (snd (ChatStore_get
          (chat_run (ChatStore_init 86400 60)
             [Add 100 ''a'' ''user'' ''hi'', Add 200 ''b'' ''user'' ''yo'']) 86501 ''a'')) ''a'' = None \<and>
   fst (ChatStore_get
          (chat_run (ChatStore_init 86400 60)
             [Add 100 ''a'' ''user'' ''hi'', Add 200 ''b'' ''user'' ''yo'']) 86501 ''z'') = [] \<and>
   data (ChatStore_add
           (chat_run (ChatStore_init 86400 60)
              (Add 500 ''b'' ''user'' ''yo'' # replicate 60 (Add 1000 ''c'' ''user'' ''m'')))
           2000 ''c'' ''assistant'' ''a'') ''c''
     = Some \<lparr>messages = replicate 59 \<lparr>msg_role = ''user'', msg_text = ''m'', ts = 1000\<rparr>
                           @ [\<lparr>msg_role = ''assistant'', msg_text = ''a'', ts = 2000\<rparr>],
             updated = 2000\<rparr> \<and>
   data (ChatStore_add
           (chat_run (ChatStore_init 86400 60)
              (Add 500 ''b'' ''user'' ''yo'' # replicate 60 (Add 1000 ''c'' ''user'' ''m'')))
           2000 ''c'' ''assistant'' ''a'') ''b''
     = Some \<lparr>messages = [\<lparr>msg_role = ''user'', msg_text = ''yo'', ts = 500\<rparr>], updated = 500\<rparr>"
proof -
  define s2 where
    "s2 = chat_run (ChatStore_init 86400 60)
            [Add 100 ''a'' ''user'' ''hi'', Add 200 ''b'' ''user'' ''yo'']"
  define s60 where
    "s60 = chat_run (ChatStore_init 86400 60)
             (Add 500 ''b'' ''user'' ''yo'' # replicate 60 (Add 1000 ''c'' ''user'' ''m''))"
  define M where "M = \<lparr>msg_role = ''user'', msg_text = ''m'', ts = 1000::real\<rparr>"
  define Mb where "Mb = \<lparr>msg_role = ''user'', msg_text = ''yo'', ts = 500::real\<rparr>"
  have a2: "data s2 ''a'' = Some \<lparr>messages = [\<lparr>msg_role = ''user'', msg_text = ''hi'', ts = 100\<rparr>],
                                  updated = 100\<rparr>"
    by (simp add: s2_def chat_run_def ChatStore_init_def ChatStore_add_def Let_def)
  have c2: "data s2 ''c'' = None"
    by (simp add: s2_def chat_run_def ChatStore_init_def ChatStore_add_def Let_def)
  have z2: "data s2 ''z'' = None"
    by (simp add: s2_def chat_run_def ChatStore_init_def ChatStore_add_def Let_def)
  let ?s1 = "ChatStore_add (ChatStore_init 86400 60) 500 ''b'' ''user'' ''yo''"
  have s60': "s60 = chat_run ?s1 (replicate 60 (Add 1000 ''c'' ''user'' ''m''))"
    by (simp add: s60_def chat_run_def)
  have b1: "data ?s1 ''b'' = Some \<lparr>messages = [Mb], updated = 500\<rparr>" and c1: "data ?s1 ''c'' = None"
    by (simp_all add: ChatStore_init_def ChatStore_add_def Let_def Mb_def)
  have c60: "data s60 ''c'' = Some \<lparr>messages = replicate 60 M, updated = 1000\<rparr>"
    using run_replicate[of ?s1 0 60 "''c''" "''user''" "''m''" 1000] c1
    by (simp add: s60' M_def ChatStore_init_def)
  have b60: "data s60 ''b'' = Some \<lparr>messages = [Mb], updated = 500\<rparr>"
    using run_replicate_frame[of "''b''" "''c''" ?s1 60 1000 "''user''" "''m''"] b1
    by (simp add: s60')
  have tl: "tl (replicate 60 M) = replicate 59 M" by (simp add: tl_replicate)
  note T1 = ChatStore_window_ttl[OF s2_def, of "''c''" 300 "''user''" "''new''" 0]
  note T2 = ChatStore_window_ttl[OF s2_def, of "''a''" 300 "''assistant''" "''ok''" 86700]
  note T3 = ChatStore_window_ttl[OF s2_def, of "''a''" 300 "''assistant''" "''ok''" 86701]
  note T4 = ChatStore_window_ttl[OF s2_def, of "''a''" 86500 "''x''" "''y''" 0]
  note T5 = ChatStore_window_ttl[OF s2_def, of "''a''" 86501 "''x''" "''y''" 0]
  note T6 = ChatStore_window_ttl[OF s2_def, of "''z''" 86501 "''x''" "''y''" 0]
  note T7 = ChatStore_window_ttl[OF s60_def, of "''c''" 2000 "''assistant''" "''a''" 0]
  have w1: "data (ChatStore_add s2 300 ''c'' ''user'' ''new'') ''c''
     = Some \<lparr>messages = [\<lparr>msg_role = ''user'', msg_text = ''new'', ts = 300\<rparr>], updated = 300\<rparr>"
    using T1 c2 by blast
  have w2: "data (ChatStore_add s2 300 ''c'' ''user'' ''new'') ''a''
     = Some \<lparr>messages = [\<lparr>msg_role = ''user'', msg_text = ''hi'', ts = 100\<rparr>], updated = 100\<rparr>"
  proof -
    have "data (ChatStore_add s2 300 ''c'' ''user'' ''new'') ''a'' = data s2 ''a''"
      using T1 by simp
    then show ?thesis using a2 by simp
  qed
  have w3: "fst (ChatStore_get (ChatStore_add s2 300 ''a'' ''assistant'' ''ok'') 86700 ''a'')
     = [\<lparr>turn_role = ''user'', turn_text = ''hi''\<rparr>, \<lparr>turn_role = ''assistant'', turn_text = ''ok''\<rparr>]"
    using T2 a2 by simp
  have w4: "fst (ChatStore_get (ChatStore_add s2 300 ''a'' ''assistant'' ''ok'') 86701 ''a'') = []"
    using T3 by simp
  have w5: "fst (ChatStore_get s2 86500 ''a'') = [\<lparr>turn_role = ''user'', turn_text = ''hi''\<rparr>]"
    using T4 a2 by simp
  have w6: "data (snd (ChatStore_get s2 86501 ''a'')) ''a'' = None"
    using T5 a2 by simp
  have w7: "fst (ChatStore_get s2 86501 ''z'') = []"
    using T6 z2 by simp
  have w8: "data (ChatStore_add s60 2000 ''c'' ''assistant'' ''a'') ''c''
     = Some \<lparr>messages = replicate 59 M @ [\<lparr>msg_role = ''assistant'', msg_text = ''a'', ts = 2000\<rparr>],
             updated = 2000\<rparr>"
    using T7 c60 tl by simp
  have w9: "data (ChatStore_add s60 2000 ''c'' ''assistant'' ''a'') ''b''
     = Some \<lparr>messages = [Mb], updated = 500\<rparr>"
  proof -
    have "data (ChatStore_add s60 2000 ''c'' ''assistant'' ''a'') ''b'' = data s60 ''b''"
      using T7 by simp
    then show ?thesis using b60 by simp
  qed
  show ?thesis
    using w1 w2 w3 w4 w5 w6 w7 w8 w9
    unfolding s2_def s60_def M_def Mb_def by (intro conjI)
qed
subsection \<open>The scorer\<close>




lemma set_sort_reverse [simp]: "set (sort_reverse key xs) = set xs"
  by (simp add: sort_reverse_def)










lemma length_sort_reverse [simp]: "length (sort_reverse key xs) = length xs"
  by (simp add: sort_reverse_def)






subsection \<open>Evidence selection\<close>




lemma argsort_set [simp]: "set (argsort xs) = {..<length xs}"
proof -
  have "set (argsort xs) = set (map snd (zip xs [0..<length xs]))"
    unfolding argsort_def by (simp only: set_map set_sort)
  then show ?thesis by (simp add: lessThan_atLeast0)
qed

lemma argsort_length [simp]: "length (argsort xs) = length xs"
  by (simp add: argsort_def)

















text \<open>Evaluation of the long example texts.\<close>

lemma starts_with_replicate:
  "sub \<noteq> [] \<Longrightarrow> c \<notin> set sub \<Longrightarrow> starts_with sub (replicate n c @ rest) = (n = 0 \<and> starts_with sub rest)"
  by (cases sub; cases n) auto

lemma starts_with_replicate' [simp]:
  "c \<noteq> p \<Longrightarrow> 0 < n \<Longrightarrow> starts_with (p # ps) (replicate n c) = False"
  "c \<noteq> p \<Longrightarrow> 0 < n \<Longrightarrow> starts_with (p # ps) (replicate n c @ rest) = False"
  by (cases n; simp)+

lemma contains_replicate [simp]:
  "c \<noteq> p \<Longrightarrow> contains (p # ps) (replicate n c) = False"
  by (induction n) auto

lemma dropWhile_replicate [simp]:
  "\<not> P c \<Longrightarrow> 0 < n \<Longrightarrow> dropWhile P (replicate n c @ ys) = replicate n c @ ys"
  "\<not> P c \<Longrightarrow> 0 < n \<Longrightarrow> dropWhile P (replicate n c) = replicate n c"
  by (cases n; simp)+

lemma split_on_replicate [simp]:
  "c \<noteq> sep \<Longrightarrow> split_on sep (replicate n c @ sep # rest) = replicate n c # split_on sep rest"
  by (rule split_on_append) simp















end
